theory Spec2Isabelle
  imports Main
begin

section \<open>Strings and JavaScript values\<close>

text \<open>
  A JavaScript string is modelled as a \<^typ>\<open>string\<close>: one \<^typ>\<open>char\<close> per
  code unit, for code units below 256. The character classes are those of the
  regular expressions in \<^verbatim>\<open>foundry-service.js\<close>, restricted to these code units:
  \<^verbatim>\<open>\d\<close> is an ASCII digit, \<^verbatim>\<open>\s\<close> is TAB, LF, VT, FF, CR, SPACE or NBSP, and
  \<^verbatim>\<open>.\<close> is anything but LF and CR.
\<close>

definition is_digit :: "char \<Rightarrow> bool" where
  "is_digit c = (48 \<le> (of_char c :: nat) \<and> (of_char c :: nat) \<le> 57)"

definition is_space :: "char \<Rightarrow> bool" where
  "is_space c = ((of_char c :: nat) = 9 \<or> (of_char c :: nat) = 10 \<or> (of_char c :: nat) = 11
     \<or> (of_char c :: nat) = 12 \<or> (of_char c :: nat) = 13 \<or> (of_char c :: nat) = 32
     \<or> (of_char c :: nat) = 160)"

definition is_line_terminator :: "char \<Rightarrow> bool" where
  "is_line_terminator c = ((of_char c :: nat) = 10 \<or> (of_char c :: nat) = 13)"

definition is_alpha :: "char \<Rightarrow> bool" where
  "is_alpha c = ((65 \<le> (of_char c :: nat) \<and> (of_char c :: nat) \<le> 90)
     \<or> (97 \<le> (of_char c :: nat) \<and> (of_char c :: nat) \<le> 122))"

definition to_lower :: "char \<Rightarrow> char" where
  "to_lower c = (case map_of (zip ''ABCDEFGHIJKLMNOPQRSTUVWXYZ'' ''abcdefghijklmnopqrstuvwxyz'') c of
     Some l \<Rightarrow> l | None \<Rightarrow> c)"

definition digit_value :: "char \<Rightarrow> nat" where
  "digit_value c = (of_char c :: nat) - 48"

definition digit_char :: "nat \<Rightarrow> char" where
  "digit_char n = ''0123456789'' ! n"

text \<open>\<^verbatim>\<open>parseInt(d, 10)\<close> on a string of digits, and the decimal rendering of a number
  in a template string. Numbers are integers in the model: a port, a count of
  milliseconds. (JavaScript numbers are doubles; the two agree below \<open>2^53\<close>.)\<close>

definition parseInt10 :: "string \<Rightarrow> int" where
  "parseInt10 d = int (foldl (\<lambda>a c. 10 * a + digit_value c) 0 d)"

fun nat_to_dec :: "nat \<Rightarrow> string" where
  "nat_to_dec n = (if n < 10 then [digit_char n] else nat_to_dec (n div 10) @ [digit_char (n mod 10)])"

declare nat_to_dec.simps [simp del]

definition number_to_string :: "int \<Rightarrow> string" where
  "number_to_string i = (if i < 0 then CHR ''-'' # nat_to_dec (nat (- i)) else nat_to_dec (nat i))"

fun join_comma :: "string list \<Rightarrow> string" where
  "join_comma [] = []"
| "join_comma [x] = x"
| "join_comma (x # y # ys) = x @ CHR '','' # join_comma (y # ys)"

text \<open>The values that \<^verbatim>\<open>JSON.parse\<close> returns are the JavaScript values of the model.
  \<open>JNull\<close> is \<^verbatim>\<open>null\<close>; a missing property (\<^verbatim>\<open>undefined\<close>) is \<open>None\<close> of
  \<open>member\<close>.\<close>

datatype json =
    JNull
  | JBool bool
  | JNumber int
  | JString string
  | JArray "json list"
  | JObject "(string \<times> json) list"

fun truthy :: "json \<Rightarrow> bool" where
  "truthy JNull = False"
| "truthy (JBool b) = b"
| "truthy (JNumber i) = (i \<noteq> 0)"
| "truthy (JString s) = (s \<noteq> [])"
| "truthy (JArray xs) = True"
| "truthy (JObject kvs) = True"

fun member :: "json \<Rightarrow> string \<Rightarrow> json option" where
  "member (JObject kvs) k = map_of kvs k"
| "member j k = None"

fun js_to_string :: "json \<Rightarrow> string" where
  "js_to_string JNull = ''null''"
| "js_to_string (JBool b) = (if b then ''true'' else ''false'')"
| "js_to_string (JNumber i) = number_to_string i"
| "js_to_string (JString s) = s"
| "js_to_string (JArray xs) = join_comma (map (\<lambda>x. if x = JNull then [] else js_to_string x) xs)"
| "js_to_string (JObject kvs) = ''[object Object]''"

section \<open>The platform: \<^verbatim>\<open>JSON\<close> and \<^verbatim>\<open>URL\<close>\<close>

text \<open>
  \<^verbatim>\<open>JSON.parse\<close>, \<^verbatim>\<open>JSON.stringify(v, null, 2)\<close>, \<^verbatim>\<open>new URL\<close> and the conversion
  of a value that is not a number to a number belong to the JavaScript runtime, not to
  the repository. The functions of \<^verbatim>\<open>foundry-service.js\<close> take them from a
  \<open>platform\<close> record, with \<open>None\<close> for a thrown exception (for \<open>ToNumber\<close>: for
  \<^verbatim>\<open>NaN\<close>), so that a property proved for every platform holds whatever the runtime
  returns.
\<close>

record url =
  url_protocol :: string
  url_hostname :: string
  url_port :: string
  url_pathname :: string

record platform =
  JSON_parse :: "string \<Rightarrow> json option"
  JSON_stringify :: "json \<Rightarrow> string"
  new_URL :: "string \<Rightarrow> url option"
  ToNumber :: "json \<Rightarrow> int option"

section \<open>\<^verbatim>\<open>queryServiceFromCLI\<close>: parsing the status output\<close>

record discovery_result =
  endpoint :: json
  port :: json
  isRunning :: bool

record query_result = discovery_result +
  raw :: string

text \<open>The leftmost match of a pattern: \<open>f\<close> matches at the start of its argument.\<close>

fun first_match :: "(string \<Rightarrow> 'a option) \<Rightarrow> string \<Rightarrow> 'a option" where
  "first_match f [] = f []"
| "first_match f (c # cs) = (case f (c # cs) of Some m \<Rightarrow> Some m | None \<Rightarrow> first_match f cs)"

text \<open>No match of \<open>f\<close> starts inside \<open>pre\<close>, in the text \<open>pre @ s\<close>.\<close>

fun no_match_before :: "(string \<Rightarrow> 'a option) \<Rightarrow> string \<Rightarrow> string \<Rightarrow> bool" where
  "no_match_before f [] s = True"
| "no_match_before f (c # pre) s = (f (c # pre @ s) = None \<and> no_match_before f pre s)"

text \<open>\<^verbatim>\<open>/http[s]?:\/\//i\<close> at the start of the string: the matched text and the rest.\<close>

definition match_http :: "string \<Rightarrow> (string \<times> string) option" where
  "match_http s = (case s of
     h # t1 # t2 # p # r \<Rightarrow>
       if to_lower h = CHR ''h'' \<and> to_lower t1 = CHR ''t'' \<and> to_lower t2 = CHR ''t''
          \<and> to_lower p = CHR ''p''
       then (case r of
           c # r' \<Rightarrow>
             if to_lower c = CHR ''s'' then
               (if take 3 r' = ''://'' then Some ([h, t1, t2, p, c] @ ''://'', drop 3 r') else None)
             else if take 3 r = ''://'' then Some ([h, t1, t2, p] @ ''://'', drop 3 r)
             else None
         | [] \<Rightarrow> None)
       else None
   | _ \<Rightarrow> None)"

text \<open>\<^verbatim>\<open>[^\s/]+:\d+\<close> on a run of characters: the quantifier is greedy, so the host is
  the longest prefix that a colon and a digit follow.\<close>

fun host_port :: "string \<Rightarrow> (string \<times> string) option" where
  "host_port [] = None"
| "host_port (c # cs) = (case host_port cs of
       Some (h, d) \<Rightarrow> Some (c # h, d)
     | None \<Rightarrow> (case cs of
           k # ds \<Rightarrow> if k = CHR '':'' \<and> takeWhile is_digit ds \<noteq> []
                     then Some ([c], takeWhile is_digit ds) else None
         | [] \<Rightarrow> None))"

text \<open>\<^verbatim>\<open>/http[s]?:\/\/[^\s/]+:\d+/i\<close> at the start of the string.\<close>

definition full_url_at :: "string \<Rightarrow> string option" where
  "full_url_at s = (case match_http s of
       None \<Rightarrow> None
     | Some (m, r) \<Rightarrow>
         (case host_port (takeWhile (\<lambda>c. \<not> is_space c \<and> c \<noteq> CHR ''/'') r) of
            None \<Rightarrow> None
          | Some (h, d) \<Rightarrow> Some (m @ h @ CHR '':'' # d)))"

text \<open>\<^verbatim>\<open>/:(\d+)$/\<close>: the digits of the first colon that only digits follow to the end.\<close>

fun port_suffix :: "string \<Rightarrow> string option" where
  "port_suffix [] = None"
| "port_suffix (c # cs) =
     (if c = CHR '':'' \<and> cs \<noteq> [] \<and> list_all is_digit cs then Some cs else port_suffix cs)"

text \<open>\<^verbatim>\<open>/:\s*(\d+)/\<close> at the start of the string: the digits.\<close>

definition bare_port_at :: "string \<Rightarrow> string option" where
  "bare_port_at s = (case s of
       c # cs \<Rightarrow>
         if c = CHR '':'' \<and> takeWhile is_digit (dropWhile is_space cs) \<noteq> []
         then Some (takeWhile is_digit (dropWhile is_space cs)) else None
     | [] \<Rightarrow> None)"

text \<open>\<^verbatim>\<open>/http[s]?:\/\/[^\s]+/i\<close> at the start of the string.\<close>

definition url_at :: "string \<Rightarrow> string option" where
  "url_at s = (case match_http s of
       None \<Rightarrow> None
     | Some (m, r) \<Rightarrow>
         if takeWhile (\<lambda>c. \<not> is_space c) r \<noteq> [] then Some (m @ takeWhile (\<lambda>c. \<not> is_space c) r)
         else None)"

text \<open>The text scanning that follows the JSON attempt (lines 168 to 221).\<close>

definition scan_text :: "string \<Rightarrow> query_result" where
  "scan_text stdout = (case first_match full_url_at stdout of
       Some fullUrl \<Rightarrow>
         \<lparr> endpoint = JString fullUrl,
           port = (case port_suffix fullUrl of Some d \<Rightarrow> JNumber (parseInt10 d) | None \<Rightarrow> JNull),
           isRunning = True, raw = stdout \<rparr>
     | None \<Rightarrow>
         (case first_match bare_port_at stdout of
            Some d \<Rightarrow>
              \<lparr> endpoint = JString (''http://127.0.0.1:'' @ number_to_string (parseInt10 d)),
                port = JNumber (parseInt10 d), isRunning = True, raw = stdout \<rparr>
          | None \<Rightarrow>
              (case first_match url_at stdout of
                 Some u \<Rightarrow> \<lparr> endpoint = JString u, port = JNull, isRunning = True, raw = stdout \<rparr>
               | None \<Rightarrow> \<lparr> endpoint = JNull, port = JNull, isRunning = False, raw = stdout \<rparr>)))"

text \<open>The JSON attempt on a decoded value (lines 142 to 163): \<open>None\<close> when it returns
  nothing and the text scanning takes over. Reading a property of \<^verbatim>\<open>null\<close> throws, which
  the same handler catches.\<close>

definition from_json :: "json \<Rightarrow> string \<Rightarrow> query_result option" where
  "from_json jsonOutput stdout =
     (if jsonOutput = JNull then None
      else case member jsonOutput ''port'' of
          Some p \<Rightarrow>
            if truthy p then
              Some \<lparr> endpoint = JString (''http://127.0.0.1:'' @ js_to_string p),
                     port = p,
                     isRunning = (member jsonOutput ''status'' = Some (JString ''running'')
                                  \<or> member jsonOutput ''running'' = Some (JBool True)),
                     raw = stdout \<rparr>
            else (case member jsonOutput ''url'' of
                Some u \<Rightarrow> if truthy u
                   then Some \<lparr> endpoint = u, port = JNull, isRunning = True, raw = stdout \<rparr>
                   else None
              | None \<Rightarrow> None)
        | None \<Rightarrow>
            (case member jsonOutput ''url'' of
                Some u \<Rightarrow> if truthy u
                   then Some \<lparr> endpoint = u, port = JNull, isRunning = True, raw = stdout \<rparr>
                   else None
              | None \<Rightarrow> None))"

text \<open>\<^verbatim>\<open>queryServiceFromCLI\<close>, given what \<^verbatim>\<open>execAsync('foundry service status')\<close>
  did: \<open>None\<close> when it rejected (timeout, exit code, no such command), the standard
  output otherwise.\<close>

definition queryServiceFromCLI :: "platform \<Rightarrow> string option \<Rightarrow> query_result" where
  "queryServiceFromCLI pf out = (case out of
       None \<Rightarrow> \<lparr> endpoint = JNull, port = JNull, isRunning = False, raw = [] \<rparr>
     | Some stdout \<Rightarrow>
         (case JSON_parse pf stdout of
            None \<Rightarrow> scan_text stdout
          | Some jsonOutput \<Rightarrow>
              (case from_json jsonOutput stdout of
                 Some r \<Rightarrow> r
               | None \<Rightarrow> scan_text stdout)))"

section \<open>\<^verbatim>\<open>normalizeEndpoint\<close>\<close>

text \<open>\<^verbatim>\<open>replace(/\/$/, '')\<close>: without the \<^verbatim>\<open>m\<close> flag, \<^verbatim>\<open>$\<close> is the end of the string.\<close>

definition strip_trailing_slash :: "string \<Rightarrow> string" where
  "strip_trailing_slash s = (if s \<noteq> [] \<and> last s = CHR ''/'' then butlast s else s)"

text \<open>\<^verbatim>\<open>replace(/\/.*$/, '')\<close>: the match starts at the first slash that no line terminator
  follows, and runs to the end.\<close>

fun strip_path :: "string \<Rightarrow> string" where
  "strip_path [] = []"
| "strip_path (c # cs) =
     (if c = CHR ''/'' \<and> \<not> list_ex is_line_terminator cs then [] else c # strip_path cs)"

definition starts_with :: "string \<Rightarrow> string \<Rightarrow> bool" where
  "starts_with s p = (take (length p) s = p)"

text \<open>The handler of the exception of \<^verbatim>\<open>new URL\<close> (lines 379 to 388).\<close>

definition normalize_fallback :: "string \<Rightarrow> string" where
  "normalize_fallback endpoint0 =
     (let endpoint1 = strip_trailing_slash endpoint0;
          endpoint2 = strip_path endpoint1;
          endpoint3 = (if \<not> starts_with endpoint2 ''http://'' \<and> \<not> starts_with endpoint2 ''https://''
                       then ''http://'' @ endpoint2 else endpoint2)
      in if starts_with endpoint3 ''https:'' then ''http:'' @ drop 6 endpoint3 else endpoint3)"

text \<open>\<^verbatim>\<open>normalizeEndpoint\<close> on \<^verbatim>\<open>null\<close> (\<open>None\<close>) or a string; \<open>None\<close> is the
  \<^verbatim>\<open>null\<close> it returns.\<close>

definition normalizeEndpoint :: "platform \<Rightarrow> string option \<Rightarrow> string option" where
  "normalizeEndpoint pf ep = (case ep of
       None \<Rightarrow> None
     | Some e \<Rightarrow>
         if e = [] then None
         else (case new_URL pf e of
            Some u \<Rightarrow>
              Some (url_protocol u @ ''//'' @ url_hostname u
                    @ (if url_port u \<noteq> [] then CHR '':'' # url_port u else []))
          | None \<Rightarrow> Some (normalize_fallback e)))"

section \<open>\<^verbatim>\<open>verifyEndpoint\<close>\<close>

text \<open>What the request does first: the server answers with some status code, the
  request fails with an error, its socket times out, or \<^verbatim>\<open>http.request\<close> itself
  throws. The promise is settled by the first of them.\<close>

datatype probe_event = Response nat | NetworkError | SocketTimeout | RequestThrows

record request_options =
  req_hostname :: string
  req_port :: json
  req_path :: string
  req_method :: string
  req_timeout :: int

text \<open>The options of the request (lines 244 to 257); \<open>None\<close> when \<^verbatim>\<open>new URL\<close>
  throws. An omitted \<^verbatim>\<open>timeout\<close> argument is \<open>None\<close>.\<close>

definition probe_options :: "platform \<Rightarrow> json \<Rightarrow> int option \<Rightarrow> request_options option" where
  "probe_options pf u timeout_arg = (case new_URL pf (js_to_string u) of
       None \<Rightarrow> None
     | Some parsedUrl \<Rightarrow>
         Some \<lparr> req_hostname = url_hostname parsedUrl,
                req_port = (if url_port parsedUrl \<noteq> [] then JString (url_port parsedUrl) else JNumber 80),
                req_path = (if url_pathname parsedUrl \<noteq> [] \<and> url_pathname parsedUrl \<noteq> ''/''
                            then url_pathname parsedUrl else ''/v1/models''),
                req_method = ''GET'',
                req_timeout = (case timeout_arg of None \<Rightarrow> 3000 | Some t \<Rightarrow> t) \<rparr>)"

definition verifyEndpoint ::
  "platform \<Rightarrow> (request_options \<Rightarrow> probe_event) \<Rightarrow> json \<Rightarrow> int option \<Rightarrow> bool" where
  "verifyEndpoint pf net u timeout_arg = (case probe_options pf u timeout_arg of
       None \<Rightarrow> False
     | Some options \<Rightarrow>
         (case net options of
            Response status \<Rightarrow> True
          | NetworkError \<Rightarrow> False
          | SocketTimeout \<Rightarrow> False
          | RequestThrows \<Rightarrow> False))"

section \<open>The endpoint cache\<close>

text \<open>The cache directory and \<^verbatim>\<open>endpoint-cache.json\<close> in it (\<open>None\<close>: no such
  file), and whether \<^verbatim>\<open>readFileSync\<close>, \<^verbatim>\<open>mkdirSync\<close> and \<^verbatim>\<open>writeFileSync\<close>
  succeed; they throw otherwise.\<close>

record filesys =
  dir_exists :: bool
  cache_file :: "string option"
  can_read :: bool
  can_mkdir :: bool
  can_write :: bool

definition day_ms :: int where
  "day_ms = 24 * 60 * 60 * 1000"

text \<open>\<^verbatim>\<open>readCachedEndpoint\<close> when \<^verbatim>\<open>Date.now()\<close> is \<open>now\<close>; \<open>JNull\<close> is the \<^verbatim>\<open>null\<close>
  it returns.\<close>

definition readCachedEndpoint :: "platform \<Rightarrow> filesys \<Rightarrow> int \<Rightarrow> json" where
  "readCachedEndpoint pf fs now = (case cache_file fs of
       None \<Rightarrow> JNull
     | Some text \<Rightarrow>
         if \<not> can_read fs then JNull
         else (case JSON_parse pf text of
            None \<Rightarrow> JNull
          | Some data \<Rightarrow>
              if data = JNull then JNull
              else (case (member data ''endpoint'', member data ''timestamp'') of
                 (Some e, Some ts) \<Rightarrow>
                   if truthy e \<and> truthy ts then
                     (case (case ts of JNumber t \<Rightarrow> Some t | _ \<Rightarrow> ToNumber pf ts) of
                        Some t \<Rightarrow> if now - t < day_ms then e else JNull
                      | None \<Rightarrow> JNull)
                   else JNull
               | _ \<Rightarrow> JNull)))"

datatype event = Exec string | Delay nat | Verify json | Mkdir | WriteFile string

text \<open>\<^verbatim>\<open>cacheEndpoint\<close> when \<^verbatim>\<open>Date.now()\<close> is \<open>now\<close>: the file system after it, and
  what it did.\<close>

definition cacheEndpoint :: "platform \<Rightarrow> filesys \<Rightarrow> int \<Rightarrow> json \<Rightarrow> filesys \<times> event list" where
  "cacheEndpoint pf fs now ep =
     (if \<not> truthy ep then (fs, [])
      else if \<not> dir_exists fs \<and> \<not> can_mkdir fs then (fs, [])
      else (let made = (if dir_exists fs then [] else [Mkdir]);
                fs1 = fs\<lparr>dir_exists := True\<rparr>;
                text = JSON_stringify pf (JObject [(''endpoint'', ep), (''timestamp'', JNumber now)])
            in if can_write fs then (fs1\<lparr>cache_file := Some text\<rparr>, made @ [WriteFile text])
               else (fs1, made)))"

section \<open>\<^verbatim>\<open>startFoundryService\<close> and \<^verbatim>\<open>discoverFoundryService\<close>\<close>

text \<open>
  What the outside does in one run: the output of the \<open>k\<close>-th execution of
  \<^verbatim>\<open>foundry service status\<close>, the first event of the \<open>k\<close>-th request, the two readings
  of the clock (in \<^verbatim>\<open>readCachedEndpoint\<close> and in \<^verbatim>\<open>cacheEndpoint\<close>), and the message
  of the exception of \<^verbatim>\<open>exec('foundry service start')\<close>, should it throw.
\<close>

record env =
  runtime :: platform
  status_output :: "nat \<Rightarrow> string option"
  network :: "nat \<Rightarrow> request_options \<Rightarrow> probe_event"
  read_time :: int
  write_time :: int
  start_throws :: "string option"

text \<open>The state of a run: the files, how many status commands and requests were
  issued, and what was done, in order.\<close>

record world =
  files :: filesys
  status_calls :: nat
  probe_calls :: nat
  trace :: "event list"

record start_outcome =
  started :: bool
  wasAlreadyRunning :: bool
  message :: string

definition status_command :: string where
  "status_command = ''foundry service status''"

definition start_command :: string where
  "start_command = ''foundry service start''"

definition delay :: "nat \<Rightarrow> world \<Rightarrow> world" where
  "delay ms w = w\<lparr>trace := trace w @ [Delay ms]\<rparr>"

text \<open>One \<^verbatim>\<open>await queryServiceFromCLI()\<close>.\<close>

definition query_step :: "env \<Rightarrow> world \<Rightarrow> query_result \<times> world" where
  "query_step e w =
     (queryServiceFromCLI (runtime e) (status_output e (status_calls w)),
      w\<lparr>status_calls := Suc (status_calls w), trace := trace w @ [Exec status_command]\<rparr>)"

text \<open>One \<^verbatim>\<open>await verifyEndpoint(url)\<close>, with the default timeout.\<close>

definition verify_step :: "env \<Rightarrow> json \<Rightarrow> world \<Rightarrow> bool \<times> world" where
  "verify_step e u w =
     (verifyEndpoint (runtime e) (network e (probe_calls w)) u None,
      w\<lparr>probe_calls := Suc (probe_calls w), trace := trace w @ [Verify u]\<rparr>)"

definition is_up :: "query_result \<Rightarrow> bool" where
  "is_up r = (isRunning r \<and> truthy (endpoint r))"

definition maxRetries :: nat where
  "maxRetries = 60"

text \<open>The loop of lines 83 to 103.\<close>

function poll :: "env \<Rightarrow> nat \<Rightarrow> world \<Rightarrow> start_outcome \<times> world" where
  "poll e retryCount w =
     (if retryCount < maxRetries then
        (let checkResult = fst (query_step e w); w1 = snd (query_step e w)
         in if is_up checkResult then
              (\<lparr> started = True, wasAlreadyRunning = False,
                 message = ''Service started on '' @ js_to_string (endpoint checkResult) \<rparr>, w1)
            else poll e (retryCount + 1) (delay 1000 w1))
      else (\<lparr> started = False, wasAlreadyRunning = False,
              message = ''Service start timeout - please check manually'' \<rparr>, w))"
  by pat_completeness auto
termination
  by (relation "measure (\<lambda>(e, retryCount, w). maxRetries - retryCount)") auto

declare poll.simps [simp del]

definition startFoundryService :: "env \<Rightarrow> world \<Rightarrow> start_outcome \<times> world" where
  "startFoundryService e w =
     (let statusResult = fst (query_step e w); w1 = snd (query_step e w)
      in if is_up statusResult then
           (\<lparr> started = False, wasAlreadyRunning = True,
              message = ''Service already running on '' @ js_to_string (endpoint statusResult) \<rparr>, w1)
         else (case start_throws e of
            Some msg \<Rightarrow>
              (\<lparr> started = False, wasAlreadyRunning = False, message = ''Error: '' @ msg \<rparr>, w1)
          | None \<Rightarrow>
              poll e 0 (delay 2000 (w1\<lparr>trace := trace w1 @ [Exec start_command]\<rparr>))))"

text \<open>Steps 2 to 5 of \<^verbatim>\<open>discoverFoundryService\<close> (lines 433 to 484).\<close>

definition launch_and_query :: "env \<Rightarrow> world \<Rightarrow> discovery_result \<times> world" where
  "launch_and_query e w =
     (let w2 = snd (startFoundryService e w);
          w3 = delay 1000 w2;
          cliResult = fst (query_step e w3);
          w4 = snd (query_step e w3)
      in if \<not> truthy (endpoint cliResult) then
           (\<lparr> endpoint = JNull, port = port cliResult, isRunning = False \<rparr>, w4)
         else (let isValid = fst (verify_step e (endpoint cliResult) w4);
                   w5 = snd (verify_step e (endpoint cliResult) w4)
               in if \<not> isValid then
                    (\<lparr> endpoint = endpoint cliResult, port = port cliResult, isRunning = False \<rparr>, w5)
                  else (let written = cacheEndpoint (runtime e) (files w5) (write_time e)
                                        (endpoint cliResult)
                        in (\<lparr> endpoint = endpoint cliResult, port = port cliResult,
                              isRunning = True \<rparr>,
                            w5\<lparr>files := fst written, trace := trace w5 @ snd written\<rparr>))))"

text \<open>Step 1 (lines 418 to 431): the result, when the cached endpoint answers; the
  state in which step 2 starts otherwise.\<close>

definition check_cache :: "env \<Rightarrow> world \<Rightarrow> (discovery_result \<times> world) + world" where
  "check_cache e w =
     (let cachedEndpoint = readCachedEndpoint (runtime e) (files w) (read_time e)
      in if truthy cachedEndpoint then
           (let isValid = fst (verify_step e cachedEndpoint w);
                w1 = snd (verify_step e cachedEndpoint w)
            in if isValid then
                 Inl (\<lparr> endpoint = cachedEndpoint, port = JNull, isRunning = True \<rparr>, w1)
               else Inr w1)
         else Inr w)"

definition discoverFoundryService :: "env \<Rightarrow> world \<Rightarrow> discovery_result \<times> world" where
  "discoverFoundryService e w = (case check_cache e w of
       Inl r \<Rightarrow> r
     | Inr w0 \<Rightarrow> launch_and_query e w0)"

text \<open>The events that change the files.\<close>

fun is_write :: "event \<Rightarrow> bool" where
  "is_write Mkdir = True"
| "is_write (WriteFile t) = True"
| "is_write ev = False"

section \<open>A model of the runtime\<close>

text \<open>
  Closed facts about one input need the runtime's answer on that input. \<open>node\<close> models
  it on a fragment:
  \<^item> \<^verbatim>\<open>JSON.parse\<close> on JSON texts whose numbers are integers and whose \<^verbatim>\<open>\u\<close>
    escapes stay below 256 (it reports a syntax error on the other numbers and
    escapes, where the runtime does not);
  \<^item> \<^verbatim>\<open>JSON.stringify(v, null, 2)\<close>;
  \<^item> the conversion to a number of a boolean and of a string of digits (it reports
    \<^verbatim>\<open>NaN\<close> on every other value that is not a number);
  \<^item> \<^verbatim>\<open>new URL\<close> after the URL Standard, on the schemes \<^verbatim>\<open>http\<close>, \<^verbatim>\<open>https\<close>,
    \<^verbatim>\<open>ws\<close>, \<^verbatim>\<open>wss\<close> and \<^verbatim>\<open>ftp\<close> with a host that is a name of ASCII letters, digits,
    \<^verbatim>\<open>-\<close>, \<^verbatim>\<open>_\<close> and dots, or a dotted-decimal IPv4 address, and on the other schemes
    but \<^verbatim>\<open>file\<close>. Protocol, hostname and port are those of the runtime; the pathname
    is, for a path that the runtime leaves as written (no dot segments, no character
    to escape). Outside the fragment \<open>node_URL\<close> reports a failure.
  What is stated below for every platform \<open>pf\<close> does not depend on \<open>node\<close>.
\<close>

definition is_json_ws :: "char \<Rightarrow> bool" where
  "is_json_ws c = ((of_char c :: nat) = 32 \<or> (of_char c :: nat) = 9 \<or> (of_char c :: nat) = 10
     \<or> (of_char c :: nat) = 13)"

definition hex_bits :: "char \<Rightarrow> (bool \<times> bool \<times> bool \<times> bool) option" where
  "hex_bits c = map_of (zip ''0123456789abcdefABCDEF''
     [(False, False, False, False), (True, False, False, False), (False, True, False, False),
      (True, True, False, False), (False, False, True, False), (True, False, True, False),
      (False, True, True, False), (True, True, True, False), (False, False, False, True),
      (True, False, False, True), (False, True, False, True), (True, True, False, True),
      (False, False, True, True), (True, False, True, True), (False, True, True, True),
      (True, True, True, True), (False, True, False, True), (True, True, False, True),
      (False, False, True, True), (True, False, True, True), (False, True, True, True),
      (True, True, True, True)]) c"

definition simple_escape :: "char \<Rightarrow> char option" where
  "simple_escape e = map_of
     [(CHR 0x22, CHR 0x22), (CHR 0x5C, CHR 0x5C), (CHR ''/'', CHR ''/''), (CHR ''b'', CHR 0x08),
      (CHR ''f'', CHR 0x0C), (CHR ''n'', CHR 0x0A), (CHR ''r'', CHR 0x0D), (CHR ''t'', CHR 0x09)] e"

text \<open>A JSON string after its opening quote: the decoded text and what follows the
  closing quote.\<close>

fun json_string_body :: "string \<Rightarrow> (string \<times> string) option" where
  "json_string_body [] = None"
| "json_string_body (c # cs) =
     (if c = CHR 0x22 then Some ([], cs)
      else if c = CHR 0x5C then
        (case cs of
           [] \<Rightarrow> None
         | e # r \<Rightarrow>
             if e = CHR ''u'' then
               (case r of
                  h1 # h2 # h3 # h4 # r' \<Rightarrow>
                    (case (hex_bits h3, hex_bits h4) of
                       (Some (a0, a1, a2, a3), Some (b0, b1, b2, b3)) \<Rightarrow>
                         if h1 = CHR ''0'' \<and> h2 = CHR ''0''
                         then map_option (\<lambda>(t, k). (Char b0 b1 b2 b3 a0 a1 a2 a3 # t, k))
                                (json_string_body r')
                         else None
                     | _ \<Rightarrow> None)
                | _ \<Rightarrow> None)
             else (case simple_escape e of
                  None \<Rightarrow> None
                | Some x \<Rightarrow> map_option (\<lambda>(t, k). (x # t, k)) (json_string_body r)))
      else if (of_char c :: nat) < 32 then None
      else map_option (\<lambda>(t, k). (c # t, k)) (json_string_body cs))"

definition json_number :: "string \<Rightarrow> (json \<times> string) option" where
  "json_number s =
     (let neg = (take 1 s = ''-'');
          s1 = (if neg then drop 1 s else s);
          ds = takeWhile is_digit s1;
          r = dropWhile is_digit s1
      in if ds = [] then None
         else if 1 < length ds \<and> take 1 ds = ''0'' then None
         else if take 1 r = ''.'' \<or> take 1 r = ''e'' \<or> take 1 r = ''E'' then None
         else Some (JNumber (if neg then - parseInt10 ds else parseInt10 ds), r))"

text \<open>A property that occurs twice keeps its place and takes the later value.\<close>

fun set_member :: "(string \<times> json) list \<Rightarrow> string \<Rightarrow> json \<Rightarrow> (string \<times> json) list" where
  "set_member [] k v = [(k, v)]"
| "set_member ((k', v') # kvs) k v =
     (if k' = k then (k, v) # kvs else (k', v') # set_member kvs k v)"

text \<open>Recursive descent, with fuel for the nesting: every call follows a character
  that was consumed, so twice the length of the text is enough.\<close>

fun json_value :: "nat \<Rightarrow> string \<Rightarrow> (json \<times> string) option"
  and json_elements :: "nat \<Rightarrow> json list \<Rightarrow> string \<Rightarrow> (json \<times> string) option"
  and json_members :: "nat \<Rightarrow> (string \<times> json) list \<Rightarrow> string \<Rightarrow> (json \<times> string) option"
where
  "json_value fuel s = (if fuel = 0 then None else
     (case dropWhile is_json_ws s of
        [] \<Rightarrow> None
      | c # cs \<Rightarrow>
          if c = CHR ''{'' then
            (case dropWhile is_json_ws cs of
               [] \<Rightarrow> None
             | d # ds \<Rightarrow> if d = CHR ''}'' then Some (JObject [], ds)
                         else json_members (fuel - 1) [] cs)
          else if c = CHR ''['' then
            (case dropWhile is_json_ws cs of
               [] \<Rightarrow> None
             | d # ds \<Rightarrow> if d = CHR '']'' then Some (JArray [], ds)
                         else json_elements (fuel - 1) [] cs)
          else if c = CHR 0x22 then map_option (\<lambda>(t, r). (JString t, r)) (json_string_body cs)
          else if take 4 (c # cs) = ''true'' then Some (JBool True, drop 4 (c # cs))
          else if take 5 (c # cs) = ''false'' then Some (JBool False, drop 5 (c # cs))
          else if take 4 (c # cs) = ''null'' then Some (JNull, drop 4 (c # cs))
          else json_number (c # cs)))"
| "json_elements fuel acc s = (if fuel = 0 then None else
     (case json_value (fuel - 1) s of
        None \<Rightarrow> None
      | Some (v, r) \<Rightarrow>
          (case dropWhile is_json_ws r of
             [] \<Rightarrow> None
           | c # r' \<Rightarrow>
               if c = CHR '','' then json_elements (fuel - 1) (acc @ [v]) r'
               else if c = CHR '']'' then Some (JArray (acc @ [v]), r')
               else None)))"
| "json_members fuel acc s = (if fuel = 0 then None else
     (case dropWhile is_json_ws s of
        [] \<Rightarrow> None
      | q # s1 \<Rightarrow>
          if q = CHR 0x22 then
            (case json_string_body s1 of
               None \<Rightarrow> None
             | Some (k, s2) \<Rightarrow>
                 (case dropWhile is_json_ws s2 of
                    [] \<Rightarrow> None
                  | c # s3 \<Rightarrow>
                      if c = CHR '':'' then
                        (case json_value (fuel - 1) s3 of
                           None \<Rightarrow> None
                         | Some (v, r) \<Rightarrow>
                             (case dropWhile is_json_ws r of
                                [] \<Rightarrow> None
                              | e # r' \<Rightarrow>
                                  if e = CHR '','' then json_members (fuel - 1) (set_member acc k v) r'
                                  else if e = CHR ''}'' then Some (JObject (set_member acc k v), r')
                                  else None))
                      else None))
          else None))"

declare json_value.simps [simp del] json_elements.simps [simp del] json_members.simps [simp del]

definition json_parse :: "string \<Rightarrow> json option" where
  "json_parse s = (case json_value (2 * length s + 2) s of
       None \<Rightarrow> None
     | Some (v, r) \<Rightarrow> if dropWhile is_json_ws r = [] then Some v else None)"

definition hex_digit :: "nat \<Rightarrow> char" where
  "hex_digit n = ''0123456789abcdef'' ! n"

definition quote_char :: "char \<Rightarrow> string" where
  "quote_char c =
     (if c = CHR 0x22 then [CHR 0x5C, CHR 0x22]
      else if c = CHR 0x5C then [CHR 0x5C, CHR 0x5C]
      else if c = CHR 0x08 then [CHR 0x5C, CHR ''b'']
      else if c = CHR 0x0C then [CHR 0x5C, CHR ''f'']
      else if c = CHR 0x0A then [CHR 0x5C, CHR ''n'']
      else if c = CHR 0x0D then [CHR 0x5C, CHR ''r'']
      else if c = CHR 0x09 then [CHR 0x5C, CHR ''t'']
      else if (of_char c :: nat) < 32
        then [CHR 0x5C, CHR ''u'', CHR ''0'', CHR ''0'',
              hex_digit ((of_char c :: nat) div 16), hex_digit ((of_char c :: nat) mod 16)]
      else [c])"

definition json_quote :: "string \<Rightarrow> string" where
  "json_quote s = CHR 0x22 # concat (map quote_char s) @ [CHR 0x22]"

fun join_with :: "string \<Rightarrow> string list \<Rightarrow> string" where
  "join_with sep [] = []"
| "join_with sep [x] = x"
| "join_with sep (x # y # ys) = x @ sep @ join_with sep (y # ys)"

definition line_break :: "nat \<Rightarrow> string" where
  "line_break ind = CHR 0x0A # replicate ind (CHR '' '')"

fun json_stringify :: "nat \<Rightarrow> json \<Rightarrow> string" where
  "json_stringify ind JNull = ''null''"
| "json_stringify ind (JBool b) = (if b then ''true'' else ''false'')"
| "json_stringify ind (JNumber i) = number_to_string i"
| "json_stringify ind (JString s) = json_quote s"
| "json_stringify ind (JArray xs) =
     (if xs = [] then ''[]''
      else ''['' @ line_break (ind + 2)
           @ join_with (CHR '','' # line_break (ind + 2)) (map (json_stringify (ind + 2)) xs)
           @ line_break ind @ '']'')"
| "json_stringify ind (JObject kvs) =
     (if kvs = [] then ''{}''
      else ''{'' @ line_break (ind + 2)
           @ join_with (CHR '','' # line_break (ind + 2))
               (map (\<lambda>kv. json_quote (fst kv) @ '': '' @ json_stringify (ind + 2) (snd kv)) kvs)
           @ line_break ind @ ''}'')"

text \<open>The URL parser. Leading and trailing C0 controls and spaces are trimmed, tabs
  and newlines removed; a scheme is a letter followed by letters, digits, \<^verbatim>\<open>+\<close>,
  \<^verbatim>\<open>-\<close> and \<^verbatim>\<open>.\<close>, up to a colon.\<close>

definition is_c0_or_space :: "char \<Rightarrow> bool" where
  "is_c0_or_space c = ((of_char c :: nat) \<le> 32)"

definition is_tab_or_newline :: "char \<Rightarrow> bool" where
  "is_tab_or_newline c = ((of_char c :: nat) = 9 \<or> (of_char c :: nat) = 10 \<or> (of_char c :: nat) = 13)"

definition is_scheme_char :: "char \<Rightarrow> bool" where
  "is_scheme_char c = (is_alpha c \<or> is_digit c \<or> c = CHR ''+'' \<or> c = CHR ''-'' \<or> c = CHR ''.'')"

definition default_port :: "string \<Rightarrow> nat option" where
  "default_port scheme = map_of
     [(''http'', 80), (''https'', 443), (''ws'', 80), (''wss'', 443), (''ftp'', 21)] scheme"

fun split_on :: "char \<Rightarrow> string \<Rightarrow> string list" where
  "split_on d [] = [[]]"
| "split_on d (c # cs) =
     (case split_on d cs of
        [] \<Rightarrow> [[c]]
      | w # ws \<Rightarrow> if c = d then [] # w # ws else (c # w) # ws)"

definition is_dec_octet :: "string \<Rightarrow> bool" where
  "is_dec_octet w = (w \<noteq> [] \<and> list_all is_digit w \<and> (length w = 1 \<or> take 1 w \<noteq> ''0'')
     \<and> parseInt10 w \<le> 255)"

definition is_host_char :: "char \<Rightarrow> bool" where
  "is_host_char c = (is_alpha c \<or> is_digit c \<or> c = CHR ''-'' \<or> c = CHR ''_'' \<or> c = CHR ''.'')"

text \<open>The host of a special scheme, on the fragment: a name is put in lower case; a
  host whose last label is a number is an IPv4 address, accepted in dotted-decimal
  form only. Labels in Punycode (\<^verbatim>\<open>xn--\<close>) and hexadecimal numbers are outside.\<close>

definition parse_host :: "string \<Rightarrow> string option" where
  "parse_host h =
     (let l = map to_lower h;
          labels = split_on (CHR ''.'') l;
          labels' = (if last labels = [] then butlast labels else labels);
          final = (if labels' = [] then [] else last labels')
      in if h = [] \<or> \<not> list_all is_host_char h \<or> list_ex (\<lambda>w. take 4 w = ''xn--'') labels
         then None
         else if final \<noteq> [] \<and> list_all is_digit final then
           (if length labels = 4 \<and> list_all is_dec_octet labels then Some l else None)
         else if take 2 final = ''0x'' then None
         else Some l)"

text \<open>The port: digits only, at most 65535, and dropped when it is the default port of
  the scheme.\<close>

definition parse_port :: "string \<Rightarrow> string \<Rightarrow> string option" where
  "parse_port scheme ds =
     (if \<not> list_all is_digit ds then None
      else if ds = [] then Some []
      else if 65535 < parseInt10 ds then None
      else if default_port scheme = Some (nat (parseInt10 ds)) then Some []
      else Some (number_to_string (parseInt10 ds)))"

definition after_last_at :: "string \<Rightarrow> string" where
  "after_last_at a = rev (takeWhile (\<lambda>c. c \<noteq> CHR ''@'') (rev a))"

definition is_path_end :: "char \<Rightarrow> bool" where
  "is_path_end c = (c = CHR ''?'' \<or> c = CHR ''#'')"

definition is_slash :: "char \<Rightarrow> bool" where
  "is_slash c = (c = CHR ''/'' \<or> c = CHR 0x5C)"

definition is_special_end :: "char \<Rightarrow> bool" where
  "is_special_end c = (is_slash c \<or> is_path_end c)"

definition is_other_end :: "char \<Rightarrow> bool" where
  "is_other_end c = (c = CHR ''/'' \<or> is_path_end c)"

definition parse_special :: "string \<Rightarrow> string \<Rightarrow> url option" where
  "parse_special scheme after =
     (let body = dropWhile is_slash after;
          authority = takeWhile (\<lambda>c. \<not> is_special_end c) body;
          tail = dropWhile (\<lambda>c. \<not> is_special_end c) body;
          hostport = after_last_at authority;
          host = takeWhile (\<lambda>c. c \<noteq> CHR '':'') hostport;
          ds = drop 1 (dropWhile (\<lambda>c. c \<noteq> CHR '':'') hostport);
          path = map (\<lambda>c. if c = CHR 0x5C then CHR ''/'' else c) (takeWhile (\<lambda>c. \<not> is_path_end c) tail)
      in case parse_host host of
           None \<Rightarrow> None
         | Some hn \<Rightarrow>
             (case parse_port scheme ds of
                None \<Rightarrow> None
              | Some p \<Rightarrow>
                  Some \<lparr> url_protocol = scheme @ '':'', url_hostname = hn, url_port = p,
                         url_pathname = (if path = [] then ''/'' else path) \<rparr>))"

text \<open>The other schemes: an authority after \<^verbatim>\<open>//\<close> (the host may be empty and is left
  as written), an opaque path otherwise.\<close>

definition parse_other :: "string \<Rightarrow> string \<Rightarrow> url option" where
  "parse_other scheme after =
     (if take 2 after = ''//'' then
        (let body = drop 2 after;
             authority = takeWhile (\<lambda>c. \<not> is_other_end c) body;
             tail = dropWhile (\<lambda>c. \<not> is_other_end c) body;
             hostport = after_last_at authority;
             host = takeWhile (\<lambda>c. c \<noteq> CHR '':'') hostport;
             ds = drop 1 (dropWhile (\<lambda>c. c \<noteq> CHR '':'') hostport)
         in if \<not> list_all is_host_char host \<or> (host = [] \<and> authority \<noteq> [])
            then None
            else (case parse_port scheme ds of
                None \<Rightarrow> None
              | Some p \<Rightarrow>
                  Some \<lparr> url_protocol = scheme @ '':'', url_hostname = host, url_port = p,
                         url_pathname = takeWhile (\<lambda>c. \<not> is_path_end c) tail \<rparr>))
      else Some \<lparr> url_protocol = scheme @ '':'', url_hostname = [], url_port = [],
                  url_pathname = takeWhile (\<lambda>c. \<not> is_path_end c) after \<rparr>)"

definition node_URL :: "string \<Rightarrow> url option" where
  "node_URL input =
     (let trimmed = rev (dropWhile is_c0_or_space (rev (dropWhile is_c0_or_space input)));
          s = filter (\<lambda>c. \<not> is_tab_or_newline c) trimmed;
          scheme = map to_lower (takeWhile is_scheme_char s);
          rest = dropWhile is_scheme_char s
      in if take 1 rest \<noteq> '':'' \<or> \<not> list_all is_alpha (take 1 s) \<or> scheme = [] then None
         else if scheme = ''file'' then None
         else if default_port scheme \<noteq> None then parse_special scheme (drop 1 rest)
         else parse_other scheme (drop 1 rest))"

text \<open>The conversion to a number, on booleans and on strings of digits.\<close>

fun node_ToNumber :: "json \<Rightarrow> int option" where
  "node_ToNumber (JNumber i) = Some i"
| "node_ToNumber (JBool b) = Some (if b then 1 else 0)"
| "node_ToNumber (JString s) = (if s \<noteq> [] \<and> list_all is_digit s then Some (parseInt10 s) else None)"
| "node_ToNumber j = None"

definition node :: platform where
  "node = \<lparr> JSON_parse = json_parse, JSON_stringify = json_stringify 0, new_URL = node_URL,
            ToNumber = node_ToNumber \<rparr>"

text \<open>The port of an origin, as \<^verbatim>\<open>normalizeEndpoint\<close> appends it.\<close>

definition port_part :: "string \<Rightarrow> string" where
  "port_part p = (if p \<noteq> [] then CHR '':'' # p else [])"

section \<open>Example runs\<close>

text \<open>A machine on which the cache was never written, and three behaviours of the
  outside: the service is up and answers; the status command names an endpoint that
  does not answer; the status command fails during the whole polling and the service
  comes up just after.\<close>

definition fresh_files :: filesys where
  "fresh_files = \<lparr> dir_exists = False, cache_file = None, can_read = True, can_mkdir = True,
                   can_write = True \<rparr>"

definition fresh_world :: world where
  "fresh_world = \<lparr> files = fresh_files, status_calls = 0, probe_calls = 0, trace = [] \<rparr>"

definition running_env :: env where
  \<open>running_env = \<lparr> runtime = node,
      status_output = (\<lambda>k. Some ''{"port": 55329, "status": "running"}''),
      network = (\<lambda>k options. Response 200),
      read_time = 1700000000000, write_time = 1700000003000, start_throws = None \<rparr>\<close>

definition unreachable_env :: env where
  "unreachable_env = \<lparr> runtime = node,
      status_output = (\<lambda>k. Some ''Service is running on http://127.0.0.1:55329''),
      network = (\<lambda>k options. NetworkError),
      read_time = 1700000000000, write_time = 1700000003000, start_throws = None \<rparr>"

definition late_env :: env where
  "late_env = \<lparr> runtime = node,
      status_output = (\<lambda>k. if k \<le> 60 then None else Some ''Service is running on http://127.0.0.1:55329''),
      network = (\<lambda>k options. Response 404),
      read_time = 1700000000000, write_time = 1700000065000, start_throws = None \<rparr>"

section \<open>Evaluation and general lemmas\<close>

lemmas char_eval = is_digit_def is_space_def is_line_terminator_def is_alpha_def to_lower_def
  digit_value_def digit_char_def
lemmas number_eval = parseInt10_def number_to_string_def nat_to_dec.simps
lemmas scan_eval = scan_text_def full_url_at_def match_http_def bare_port_at_def url_at_def
lemmas json_eval = json_parse_def json_value.simps json_elements.simps json_members.simps
  is_json_ws_def json_number_def simple_escape_def hex_bits_def
lemmas query_eval = queryServiceFromCLI_def from_json_def node_def

lemmas url_eval = node_URL_def parse_special_def parse_other_def parse_host_def parse_port_def
  after_last_at_def is_path_end_def is_dec_octet_def default_port_def is_scheme_char_def
  is_host_char_def is_slash_def is_special_end_def is_other_end_def
  is_c0_or_space_def is_tab_or_newline_def
lemmas normalize_eval = normalizeEndpoint_def normalize_fallback_def strip_trailing_slash_def
  starts_with_def

lemma first_match_skip:
  "no_match_before f pre s \<Longrightarrow> first_match f (pre @ s) = first_match f s"
  by (induction pre) auto


lemma full_url_at_example:
  "full_url_at (''http://127.0.0.1:55329/openai/status'' @ post) = Some ''http://127.0.0.1:55329''"
  by (simp add: full_url_at_def match_http_def char_eval)

lemma port_suffix_example: "port_suffix ''http://127.0.0.1:55329'' = Some ''55329''"
  by (simp add: char_eval)

lemma parse_running_example:
  \<open>JSON_parse node ''{"port": 55329, "status": "running"}''
     = Some (JObject [(''port'', JNumber 55329), (''status'', JString ''running'')])\<close>
  by (simp add: node_def json_eval char_eval number_eval)

lemma running_example_up:
  \<open>queryServiceFromCLI node (Some ''{"port": 55329, "status": "running"}'')
     = \<lparr> endpoint = JString ''http://127.0.0.1:55329'', port = JNumber 55329, isRunning = True,
         raw = ''{"port": 55329, "status": "running"}'' \<rparr>\<close>
  by (simp add: queryServiceFromCLI_def from_json_def parse_running_example number_eval char_eval)

lemma text_example_up:
  "queryServiceFromCLI node (Some ''Service is running on http://127.0.0.1:55329'')
     = \<lparr> endpoint = JString ''http://127.0.0.1:55329'', port = JNumber 55329, isRunning = True,
         raw = ''Service is running on http://127.0.0.1:55329'' \<rparr>"
  by (simp add: query_eval json_eval scan_eval char_eval number_eval)

lemma node_URL_example:
  "new_URL node ''https://h:443/some/path/''
     = Some \<lparr> url_protocol = ''https:'', url_hostname = ''h'', url_port = [], url_pathname = ''/some/path/'' \<rparr>"
  by (simp add: node_def url_eval char_eval number_eval)


lemma node_URL_origin_example:
  "new_URL node ''http://127.0.0.1:55329''
     = Some \<lparr> url_protocol = ''http:'', url_hostname = ''127.0.0.1'', url_port = ''55329'',
              url_pathname = ''/'' \<rparr>"
  by (simp add: node_def url_eval char_eval number_eval)


lemma cache_round_trip_example:
  "JSON_parse node (JSON_stringify node
      (JObject [(''endpoint'', JString ''http://127.0.0.1:55329''), (''timestamp'', JNumber 1700000000000)]))
    = Some (JObject [(''endpoint'', JString ''http://127.0.0.1:55329''), (''timestamp'', JNumber 1700000000000)])"
  by (simp add: node_def json_eval char_eval number_eval json_quote_def quote_char_def line_break_def)

lemma match_http_nonempty: "match_http s = Some (m, r) \<Longrightarrow> m \<noteq> []"
  by (auto simp: match_http_def split: list.splits if_splits)








lemma commands_differ: "status_command \<noteq> start_command"
  by (simp add: status_command_def start_command_def)

lemma query_step_simps:
  "fst (query_step e w) = queryServiceFromCLI (runtime e) (status_output e (status_calls w))"
  "files (snd (query_step e w)) = files w"
  "probe_calls (snd (query_step e w)) = probe_calls w"
  "status_calls (snd (query_step e w)) = Suc (status_calls w)"
  "trace (snd (query_step e w)) = trace w @ [Exec status_command]"
  by (simp_all add: query_step_def)

lemma verify_step_simps:
  "fst (verify_step e u w) = verifyEndpoint (runtime e) (network e (probe_calls w)) u None"
  "files (snd (verify_step e u w)) = files w"
  "probe_calls (snd (verify_step e u w)) = Suc (probe_calls w)"
  "status_calls (snd (verify_step e u w)) = status_calls w"
  "trace (snd (verify_step e u w)) = trace w @ [Verify u]"
  by (simp_all add: verify_step_def)

lemma delay_simps:
  "files (delay ms w) = files w"
  "probe_calls (delay ms w) = probe_calls w"
  "status_calls (delay ms w) = status_calls w"
  "trace (delay ms w) = trace w @ [Delay ms]"
  by (simp_all add: delay_def)

lemma cache_events_are_writes: "list_all is_write (snd (cacheEndpoint pf fs now ep))"
  by (simp add: cacheEndpoint_def Let_def)

lemma poll_frame:
  "files (snd (poll e r w)) = files w \<and> probe_calls (snd (poll e r w)) = probe_calls w
   \<and> (\<exists>evs. trace (snd (poll e r w)) = trace w @ evs
         \<and> set evs \<subseteq> {Exec status_command, Delay 1000})"
proof (induction e r w rule: poll.induct)
  case (1 e r w)
  show ?case
  proof (cases "r < maxRetries \<and> \<not> is_up (fst (query_step e w))")
    case True
    then have eq: "poll e r w = poll e (r + 1) (delay 1000 (snd (query_step e w)))"
      by (subst poll.simps) (simp add: Let_def)
    from True "1.IH" [OF _ refl refl]
    have ih: "files (snd (poll e (r + 1) (delay 1000 (snd (query_step e w))))) = files (delay 1000 (snd (query_step e w)))
       \<and> probe_calls (snd (poll e (r + 1) (delay 1000 (snd (query_step e w))))) = probe_calls (delay 1000 (snd (query_step e w)))
       \<and> (\<exists>evs. trace (snd (poll e (r + 1) (delay 1000 (snd (query_step e w)))))
              = trace (delay 1000 (snd (query_step e w))) @ evs
            \<and> set evs \<subseteq> {Exec status_command, Delay 1000})"
      by simp
    then obtain evs where
      t: "trace (snd (poll e (r + 1) (delay 1000 (snd (query_step e w)))))
            = trace (delay 1000 (snd (query_step e w))) @ evs"
      and s: "set evs \<subseteq> {Exec status_command, Delay 1000}"
      by blast
    have "trace (snd (poll e r w)) = trace w @ ([Exec status_command, Delay 1000] @ evs)"
      using t by (simp add: eq delay_simps query_step_simps)
    moreover have "set ([Exec status_command, Delay 1000] @ evs) \<subseteq> {Exec status_command, Delay 1000}"
      using s by auto
    ultimately show ?thesis
      using ih unfolding eq by (metis delay_simps(1,2) query_step_simps(2,3))
  next
    case False
    then consider "\<not> r < maxRetries" | "r < maxRetries" "is_up (fst (query_step e w))"
      by blast
    then show ?thesis
    proof cases
      case 1
      then have "poll e r w = (\<lparr> started = False, wasAlreadyRunning = False,
              message = ''Service start timeout - please check manually'' \<rparr>, w)"
        by (subst poll.simps) simp
      then show ?thesis by simp
    next
      case 2
      then have "snd (poll e r w) = snd (query_step e w)"
        by (subst poll.simps) (simp add: Let_def)
      then show ?thesis
        by (simp add: query_step_simps)
    qed
  qed
qed

lemma poll_timeout:
  "r \<le> maxRetries \<Longrightarrow>
   \<forall>k < maxRetries - r. \<not> is_up (queryServiceFromCLI (runtime e) (status_output e (status_calls w + k))) \<Longrightarrow>
   poll e r w = (\<lparr> started = False, wasAlreadyRunning = False,
                   message = ''Service start timeout - please check manually'' \<rparr>,
                 w\<lparr>status_calls := status_calls w + (maxRetries - r),
                   trace := trace w @ concat (replicate (maxRetries - r) [Exec status_command, Delay 1000])\<rparr>)"
proof (induction e r w rule: poll.induct)
  case (1 e r w)
  show ?case
  proof (cases "r < maxRetries")
    case False
    with "1.prems" have "maxRetries - r = 0" by simp
    with False show ?thesis
      by (subst poll.simps) simp
  next
    case True
    let ?w1 = "delay 1000 (snd (query_step e w))"
    from True have "0 < maxRetries - r" by simp
    with "1.prems"(2) have "\<not> is_up (queryServiceFromCLI (runtime e) (status_output e (status_calls w + 0)))"
      by blast
    then have nu: "\<not> is_up (fst (query_step e w))"
      by (simp add: query_step_simps)
    have eq: "poll e r w = poll e (r + 1) ?w1"
      using True nu by (subst poll.simps) (simp add: Let_def)
    have sc: "status_calls ?w1 = Suc (status_calls w)"
      by (simp add: delay_simps query_step_simps)
    have rest: "\<forall>k < maxRetries - (r + 1).
        \<not> is_up (queryServiceFromCLI (runtime e) (status_output e (status_calls ?w1 + k)))"
    proof (intro allI impI)
      fix k assume "k < maxRetries - (r + 1)"
      then have "Suc k < maxRetries - r" by simp
      with "1.prems"(2) have "\<not> is_up (queryServiceFromCLI (runtime e) (status_output e (status_calls w + Suc k)))"
        by blast
      then show "\<not> is_up (queryServiceFromCLI (runtime e) (status_output e (status_calls ?w1 + k)))"
        by (simp add: sc)
    qed
    have le: "r + 1 \<le> maxRetries" using True by simp
    have n: "maxRetries - r = Suc (maxRetries - (r + 1))" using True by simp
    have "poll e (r + 1) ?w1 = (\<lparr> started = False, wasAlreadyRunning = False,
                   message = ''Service start timeout - please check manually'' \<rparr>,
                 ?w1\<lparr>status_calls := status_calls ?w1 + (maxRetries - (r + 1)),
                   trace := trace ?w1 @ concat (replicate (maxRetries - (r + 1)) [Exec status_command, Delay 1000])\<rparr>)"
      using "1.IH" [OF True refl refl nu le rest] .
    then show ?thesis
      unfolding eq n by (simp add: delay_def query_step_def)
  qed
qed

lemma start_up:
  assumes "is_up (queryServiceFromCLI (runtime e) (status_output e (status_calls w)))"
  shows "startFoundryService e w =
      (\<lparr> started = False, wasAlreadyRunning = True,
         message = ''Service already running on ''
           @ js_to_string (endpoint (queryServiceFromCLI (runtime e) (status_output e (status_calls w)))) \<rparr>,
       w\<lparr>status_calls := Suc (status_calls w), trace := trace w @ [Exec status_command]\<rparr>)"
  using assms by (simp add: startFoundryService_def Let_def query_step_def)

lemma start_frame:
  "files (snd (startFoundryService e w)) = files w
   \<and> probe_calls (snd (startFoundryService e w)) = probe_calls w"
proof (cases "is_up (fst (query_step e w))")
  case True
  then show ?thesis
    by (simp add: startFoundryService_def Let_def query_step_simps)
next
  case False
  show ?thesis
  proof (cases "start_throws e")
    case (Some msg)
    with False show ?thesis
      by (simp add: startFoundryService_def Let_def query_step_simps)
  next
    case None
    let ?w = "delay 2000 (snd (query_step e w)\<lparr>trace := trace (snd (query_step e w)) @ [Exec start_command]\<rparr>)"
    have "startFoundryService e w = poll e 0 ?w"
      using False None by (simp add: startFoundryService_def Let_def)
    then show ?thesis
      using poll_frame [of e 0 ?w] by (simp add: delay_simps query_step_simps)
  qed
qed

lemma start_trace:
  "\<exists>evs. trace (snd (startFoundryService e w)) = trace w @ evs
      \<and> set evs \<subseteq> {Exec status_command, Exec start_command, Delay 2000, Delay 1000}"
proof (cases "is_up (fst (query_step e w)) \<or> start_throws e \<noteq> None")
  case True
  then have "trace (snd (startFoundryService e w)) = trace w @ [Exec status_command]"
    by (auto simp: startFoundryService_def Let_def query_step_simps)
  then show ?thesis by simp
next
  case False
  let ?w = "delay 2000 (snd (query_step e w)\<lparr>trace := trace (snd (query_step e w)) @ [Exec start_command]\<rparr>)"
  have "startFoundryService e w = poll e 0 ?w"
    using False by (simp add: startFoundryService_def Let_def)
  moreover obtain evs where "trace (snd (poll e 0 ?w)) = trace ?w @ evs"
      and "set evs \<subseteq> {Exec status_command, Delay 1000}"
    using poll_frame [of e 0 ?w] by blast
  ultimately have "trace (snd (startFoundryService e w))
        = trace w @ ([Exec status_command, Exec start_command, Delay 2000] @ evs)"
      and "set ([Exec status_command, Exec start_command, Delay 2000] @ evs)
        \<subseteq> {Exec status_command, Exec start_command, Delay 2000, Delay 1000}"
    by (auto simp: delay_simps query_step_simps)
  then show ?thesis by blast
qed

lemma start_not_started:
  assumes "\<forall>k \<le> maxRetries. \<not> is_up (queryServiceFromCLI (runtime e) (status_output e (status_calls w + k)))"
  shows "\<not> started (fst (startFoundryService e w)) \<and> \<not> wasAlreadyRunning (fst (startFoundryService e w))"
    and "start_throws e = None \<Longrightarrow>
         startFoundryService e w =
           (\<lparr> started = False, wasAlreadyRunning = False,
              message = ''Service start timeout - please check manually'' \<rparr>,
            w\<lparr>status_calls := status_calls w + Suc maxRetries,
              trace := trace w @ [Exec status_command, Exec start_command, Delay 2000]
                       @ concat (replicate maxRetries [Exec status_command, Delay 1000])\<rparr>)"
proof -
  from assms have first: "\<not> is_up (fst (query_step e w))"
    by (metis add.right_neutral le0 query_step_simps(1))
  let ?w = "delay 2000 (snd (query_step e w)\<lparr>trace := trace (snd (query_step e w)) @ [Exec start_command]\<rparr>)"
  have sc: "status_calls ?w = Suc (status_calls w)"
    by (simp add: delay_def query_step_def)
  have rest: "\<forall>k < maxRetries - 0. \<not> is_up (queryServiceFromCLI (runtime e) (status_output e (status_calls ?w + k)))"
  proof (intro allI impI)
    fix k assume "k < maxRetries - 0"
    then have "Suc k \<le> maxRetries" by simp
    with assms have "\<not> is_up (queryServiceFromCLI (runtime e) (status_output e (status_calls w + Suc k)))"
      by blast
    then show "\<not> is_up (queryServiceFromCLI (runtime e) (status_output e (status_calls ?w + k)))"
      by (simp add: sc)
  qed
  have p: "poll e 0 ?w = (\<lparr> started = False, wasAlreadyRunning = False,
                   message = ''Service start timeout - please check manually'' \<rparr>,
                 ?w\<lparr>status_calls := status_calls ?w + (maxRetries - 0),
                   trace := trace ?w @ concat (replicate (maxRetries - 0) [Exec status_command, Delay 1000])\<rparr>)"
    using poll_timeout [OF _ rest] by simp
  show "start_throws e = None \<Longrightarrow>
         startFoundryService e w =
           (\<lparr> started = False, wasAlreadyRunning = False,
              message = ''Service start timeout - please check manually'' \<rparr>,
            w\<lparr>status_calls := status_calls w + Suc maxRetries,
              trace := trace w @ [Exec status_command, Exec start_command, Delay 2000]
                       @ concat (replicate maxRetries [Exec status_command, Delay 1000])\<rparr>)"
    using first p by (simp add: startFoundryService_def Let_def delay_def query_step_def)
  show "\<not> started (fst (startFoundryService e w)) \<and> \<not> wasAlreadyRunning (fst (startFoundryService e w))"
    using first p by (cases "start_throws e") (simp_all add: startFoundryService_def Let_def)
qed

lemma launch_and_query_unfold:
  fixes e w
  defines "w2 \<equiv> snd (startFoundryService e w)"
  defines "r \<equiv> queryServiceFromCLI (runtime e) (status_output e (status_calls w2))"
  defines "ok \<equiv> verifyEndpoint (runtime e) (network e (probe_calls w)) (endpoint r) None"
  shows "fst (launch_and_query e w) =
           (if truthy (endpoint r)
            then \<lparr> endpoint = endpoint r, port = port r, isRunning = ok \<rparr>
            else \<lparr> endpoint = JNull, port = port r, isRunning = False \<rparr>)"
    and "trace (snd (launch_and_query e w)) =
           trace w2 @ [Delay 1000, Exec status_command]
           @ (if truthy (endpoint r)
              then Verify (endpoint r)
                   # (if ok then snd (cacheEndpoint (runtime e) (files w) (write_time e) (endpoint r)) else [])
              else [])"
    and "files (snd (launch_and_query e w)) =
           (if truthy (endpoint r) \<and> ok
            then fst (cacheEndpoint (runtime e) (files w) (write_time e) (endpoint r))
            else files w)"
proof -
  have f: "files w2 = files w" and p: "probe_calls w2 = probe_calls w"
    using start_frame [of e w] by (simp_all add: w2_def)
  show "fst (launch_and_query e w) =
           (if truthy (endpoint r)
            then \<lparr> endpoint = endpoint r, port = port r, isRunning = ok \<rparr>
            else \<lparr> endpoint = JNull, port = port r, isRunning = False \<rparr>)"
    using f p
    by (simp add: launch_and_query_def Let_def w2_def r_def ok_def query_step_simps
        verify_step_simps delay_simps)
  show "trace (snd (launch_and_query e w)) =
           trace w2 @ [Delay 1000, Exec status_command]
           @ (if truthy (endpoint r)
              then Verify (endpoint r)
                   # (if ok then snd (cacheEndpoint (runtime e) (files w) (write_time e) (endpoint r)) else [])
              else [])"
    using f p
    by (simp add: launch_and_query_def Let_def w2_def r_def ok_def query_step_simps
        verify_step_simps delay_simps)
  show "files (snd (launch_and_query e w)) =
           (if truthy (endpoint r) \<and> ok
            then fst (cacheEndpoint (runtime e) (files w) (write_time e) (endpoint r))
            else files w)"
    using f p
    by (simp add: launch_and_query_def Let_def w2_def r_def ok_def query_step_simps
        verify_step_simps delay_simps)
qed


lemma check_cache_Inr:
  assumes "check_cache e w = Inr w0"
  shows "files w0 = files w" and "status_calls w0 = status_calls w"
    and "\<exists>evs. trace w0 = trace w @ evs \<and> list_all (\<lambda>ev. \<exists>u. ev = Verify u) evs"
  using assms
  by (auto simp: check_cache_def Let_def verify_step_simps split: if_splits)

lemma check_cache_Inl:
  assumes "check_cache e w = Inl (r, w1)"
  shows "files w1 = files w" and "trace w1 = trace w @ [Verify (endpoint r)]" and "isRunning r"
  using assms
  by (auto simp: check_cache_def Let_def verify_step_simps split: if_splits)


lemma fresh_check_cache: "check_cache e fresh_world = Inr fresh_world"
  by (simp add: check_cache_def readCachedEndpoint_def fresh_world_def fresh_files_def)

lemma read_expired:
  assumes "cache_file fs = Some text" and "JSON_parse pf text = Some data"
    and "member data ''timestamp'' = Some (JNumber T)" and "T + day_ms \<le> now"
  shows "readCachedEndpoint pf fs now = JNull"
  using assms by (auto simp: readCachedEndpoint_def split: option.splits json.splits)

section \<open>The output parser\<close>

text \<open>Claim C6, amended. For every status output that \<^verbatim>\<open>JSON.parse\<close> decodes to a value
  with a numeric \<^verbatim>\<open>port\<close> field \<open>P\<close> other than \<open>0\<close>, \<^verbatim>\<open>queryServiceFromCLI\<close> returns
  the endpoint \<^verbatim>\<open>http://127.0.0.1:<P>\<close> and the port \<open>P\<close>, and \<^verbatim>\<open>isRunning\<close> is true if and
  only if the \<^verbatim>\<open>status\<close> field is the string \<^verbatim>\<open>running\<close> or the \<^verbatim>\<open>running\<close> field is
  \<^verbatim>\<open>true\<close>.\<close>

theorem json_port_result:
  assumes "JSON_parse pf stdout = Some j"
    and "member j ''port'' = Some (JNumber P)"
    and "P \<noteq> 0"
  shows "endpoint (queryServiceFromCLI pf (Some stdout)) = JString (''http://127.0.0.1:'' @ number_to_string P)
       \<and> port (queryServiceFromCLI pf (Some stdout)) = JNumber P
       \<and> (isRunning (queryServiceFromCLI pf (Some stdout))
            \<longleftrightarrow> member j ''status'' = Some (JString ''running'') \<or> member j ''running'' = Some (JBool True))"
proof -
  have "j \<noteq> JNull"
    using assms(2) by auto
  then show ?thesis
    using assms by (simp add: queryServiceFromCLI_def from_json_def)
qed

theorem json_port_result_witness:
  \<open>endpoint (queryServiceFromCLI node (Some ''{"port": 55329, "status": "running"}''))
       = JString ''http://127.0.0.1:55329''
   \<and> port (queryServiceFromCLI node (Some ''{"port": 55329, "status": "running"}'')) = JNumber 55329
   \<and> isRunning (queryServiceFromCLI node (Some ''{"port": 55329, "status": "running"}''))\<close>
proof -
  have m: "member (JObject [(''port'', JNumber 55329), (''status'', JString ''running'')]) ''port''
      = Some (JNumber 55329)"
    by simp
  have n: "(55329 :: int) \<noteq> 0"
    by simp
  have s: "number_to_string 55329 = ''55329''"
    by (simp add: number_eval char_eval)
  show ?thesis
    using json_port_result [OF parse_running_example m n] s by simp
qed

text \<open>A port of \<open>0\<close> is falsy: the JSON branch is skipped, the text scanning finds
  \<^verbatim>\<open>: 0\<close> in the output and reports a running service, whatever the status field says.\<close>

theorem json_port_zero_counterexample:
  \<open>JSON_parse node ''{"port": 0, "status": "stopped"}''
       = Some (JObject [(''port'', JNumber 0), (''status'', JString ''stopped'')])
   \<and> isRunning (queryServiceFromCLI node (Some ''{"port": 0, "status": "stopped"}''))\<close>
  by (simp add: query_eval json_eval scan_eval char_eval number_eval)

text \<open>Claim C2, amended. For a status output that is not JSON and in which no match of the
  pattern \<^verbatim>\<open>scheme://host:port\<close> starts before
  \<^verbatim>\<open>http://127.0.0.1:55329/openai/status\<close>, the parser yields the endpoint
  \<^verbatim>\<open>http://127.0.0.1:55329\<close>, which is the URL up to its port and without its path,
  the port \<open>55329\<close>, and \<^verbatim>\<open>isRunning = true\<close>.\<close>

theorem scan_status_url:
  assumes "JSON_parse pf (pre @ ''http://127.0.0.1:55329/openai/status'' @ post) = None"
    and "no_match_before full_url_at pre (''http://127.0.0.1:55329/openai/status'' @ post)"
  shows "queryServiceFromCLI pf (Some (pre @ ''http://127.0.0.1:55329/openai/status'' @ post))
       = \<lparr> endpoint = JString ''http://127.0.0.1:55329'', port = JNumber 55329, isRunning = True,
           raw = pre @ ''http://127.0.0.1:55329/openai/status'' @ post \<rparr>"
proof -
  let ?s = "''http://127.0.0.1:55329/openai/status'' @ post"
  have "first_match full_url_at (pre @ ?s) = first_match full_url_at ?s"
    using assms(2) by (rule first_match_skip)
  also have "\<dots> = Some ''http://127.0.0.1:55329''"
    using full_url_at_example [of post] by simp
  finally have m: "first_match full_url_at (pre @ ?s) = Some ''http://127.0.0.1:55329''" .
  have p: "parseInt10 ''55329'' = 55329"
    by (simp add: parseInt10_def digit_value_def)
  show ?thesis
    using assms(1) m port_suffix_example p
    by (simp add: queryServiceFromCLI_def scan_text_def)
qed

theorem scan_status_url_witness:
  "queryServiceFromCLI node (Some ''...running on http://127.0.0.1:55329/openai/status...'')
     = \<lparr> endpoint = JString ''http://127.0.0.1:55329'', port = JNumber 55329, isRunning = True,
         raw = ''...running on http://127.0.0.1:55329/openai/status...'' \<rparr>"
proof -
  have 1: "JSON_parse node (''...running on '' @ ''http://127.0.0.1:55329/openai/status'' @ ''...'') = None"
    by (simp add: node_def json_eval char_eval)
  have 2: "no_match_before full_url_at ''...running on '' (''http://127.0.0.1:55329/openai/status'' @ ''...'')"
    by (simp add: full_url_at_def match_http_def char_eval)
  show ?thesis
    using scan_status_url [OF 1 2] by simp
qed

text \<open>The endpoint is not the URL with its path.\<close>

theorem scan_status_url_counterexample:
  "endpoint (queryServiceFromCLI node (Some ''...running on http://127.0.0.1:55329/openai/status...''))
     \<noteq> JString ''http://127.0.0.1:55329/openai/status''"
  by (simp add: query_eval json_eval scan_eval char_eval number_eval)




text \<open>The converse fails: a port with a status other than \<^verbatim>\<open>running\<close> gives an endpoint
  and \<^verbatim>\<open>isRunning = false\<close>.\<close>

lemma endpoint_without_running:
  \<open>queryServiceFromCLI node (Some ''{"port": 55329, "status": "stopped"}'')
     = \<lparr> endpoint = JString ''http://127.0.0.1:55329'', port = JNumber 55329, isRunning = False,
         raw = ''{"port": 55329, "status": "stopped"}'' \<rparr>\<close>
  by (simp add: query_eval json_eval char_eval number_eval)

section \<open>The normalizer\<close>

text \<open>Claim C1, amended. For every non-empty endpoint string that parses as a URL,
  \<^verbatim>\<open>normalizeEndpoint\<close> returns an origin without path: a scheme part, \<^verbatim>\<open>//\<close>, the
  hostname of the parsed URL and, when its port is not empty, a colon and the port.
  When the scheme of the URL is not \<^verbatim>\<open>https\<close>, the scheme part is its protocol. (The
  parser reports a port that is the default of the scheme as empty, so that the
  result on \<^verbatim>\<open>https://h:443/some/path/\<close> has the host part \<^verbatim>\<open>h\<close>.)\<close>

theorem normalize_parsed_origin:
  assumes "new_URL pf e = Some u" and "e \<noteq> []"
  shows "\<exists>scheme. normalizeEndpoint pf (Some e)
           = Some (scheme @ ''//'' @ url_hostname u @ port_part (url_port u))
         \<and> (url_protocol u \<noteq> ''https:'' \<longrightarrow> scheme = url_protocol u)"
  using assms by (simp add: normalizeEndpoint_def port_part_def)

theorem normalize_parsed_origin_witness:
  "(\<exists>scheme. normalizeEndpoint node (Some ''https://h:443/some/path/'') = Some (scheme @ ''//h''))
   \<and> normalizeEndpoint node (Some ''http://Example.COM:8080/v1/models/'')
       = Some ''http://example.com:8080''"
proof -
  have 1: "''https://h:443/some/path/'' \<noteq> []" and 2: "''http://Example.COM:8080/v1/models/'' \<noteq> []"
    by simp_all
  have u: "new_URL node ''http://Example.COM:8080/v1/models/''
     = Some \<lparr> url_protocol = ''http:'', url_hostname = ''example.com'', url_port = ''8080'',
              url_pathname = ''/v1/models/'' \<rparr>"
    by (simp add: node_def url_eval char_eval number_eval)
  show ?thesis
    using normalize_parsed_origin [OF node_URL_example 1] normalize_parsed_origin [OF u 2]
    by (simp add: port_part_def)
qed

text \<open>The result on \<^verbatim>\<open>https://h:443/some/path/\<close> is not \<^verbatim>\<open>http://h:443\<close>.\<close>

theorem normalize_https_counterexample:
  "normalizeEndpoint node (Some ''https://h:443/some/path/'') \<noteq> Some ''http://h:443''"
  by (simp add: normalizeEndpoint_def node_URL_example)

subsection \<open>Idempotence\<close>











































text \<open>When a string with a scheme does not parse, \<^verbatim>\<open>replace(/\/.*$/, '')\<close> cuts it at the
  first slash of \<^verbatim>\<open>//\<close>, and the scheme becomes the host.\<close>

lemma normalize_scheme_eaten:
  "normalizeEndpoint node (Some ''http://127.0.0.1:70000'') = Some ''http://http:''
   \<and> normalizeEndpoint node (Some ''http://http:'') = Some ''http://http''"
  by (simp add: node_def url_eval normalize_eval char_eval number_eval)

section \<open>The liveness probe\<close>



section \<open>The cache\<close>

text \<open>Claim C3. Let \<^verbatim>\<open>cacheEndpoint\<close> write an entry at time \<open>T\<close>: the endpoint is truthy, the
  directory exists or can be made, the file can be written and read, and
  \<^verbatim>\<open>JSON.parse\<close> reads back what \<^verbatim>\<open>JSON.stringify\<close> wrote. The clock counts milliseconds
  since 1970 and \<open>T\<close> is not \<open>0\<close>. Then \<^verbatim>\<open>readCachedEndpoint\<close> returns the endpoint at
  every time before \<open>T + 24h\<close> and \<^verbatim>\<open>null\<close> from \<open>T + 24h\<close> on. From \<open>T + 24h\<close> on it
  returns \<^verbatim>\<open>null\<close> for every file whose timestamp is \<open>T\<close>, whatever else it holds.\<close>

theorem cache_entry_window:
  assumes "truthy ep" and "T \<noteq> 0"
    and "dir_exists fs \<or> can_mkdir fs" and "can_write fs" and "can_read fs"
    and "JSON_parse pf (JSON_stringify pf (JObject [(''endpoint'', ep), (''timestamp'', JNumber T)]))
           = Some (JObject [(''endpoint'', ep), (''timestamp'', JNumber T)])"
  shows "readCachedEndpoint pf (fst (cacheEndpoint pf fs T ep)) now
           = (if now < T + day_ms then ep else JNull)
       \<and> (\<forall>fs' text data. cache_file fs' = Some text \<longrightarrow> JSON_parse pf text = Some data \<longrightarrow>
             member data ''timestamp'' = Some (JNumber T) \<longrightarrow> T + day_ms \<le> now \<longrightarrow>
             readCachedEndpoint pf fs' now = JNull)"
proof -
  have "readCachedEndpoint pf (fst (cacheEndpoint pf fs T ep)) now
           = (if now < T + day_ms then ep else JNull)"
    using assms by (auto simp: readCachedEndpoint_def cacheEndpoint_def Let_def)
  then show ?thesis
    using read_expired [of _ _ pf _ T now] by blast
qed

theorem cache_entry_window_witness:
  "readCachedEndpoint node
      (fst (cacheEndpoint node fresh_files 1700000000000 (JString ''http://127.0.0.1:55329'')))
      (1700000000000 + 86340000) = JString ''http://127.0.0.1:55329''
   \<and> readCachedEndpoint node
      (fst (cacheEndpoint node fresh_files 1700000000000 (JString ''http://127.0.0.1:55329'')))
      (1700000000000 + 86460000) = JNull"
proof -
  have 1: "truthy (JString ''http://127.0.0.1:55329'')" by simp
  have 2: "(1700000000000 :: int) \<noteq> 0" by simp
  have 3: "dir_exists fresh_files \<or> can_mkdir fresh_files" by (simp add: fresh_files_def)
  have 4: "can_write fresh_files" by (simp add: fresh_files_def)
  have 5: "can_read fresh_files" by (simp add: fresh_files_def)
  note t = cache_entry_window [OF 1 2 3 4 5 cache_round_trip_example]
  show ?thesis
    using t [of "1700000000000 + 86340000"] t [of "1700000000000 + 86460000"]
    by (simp add: day_ms_def)
qed

section \<open>Launching and discovery\<close>

text \<open>Claim C4. If the first status query of \<^verbatim>\<open>startFoundryService\<close> reports a running
  service with a truthy endpoint, the function returns \<^verbatim>\<open>started: false\<close> and
  \<^verbatim>\<open>wasAlreadyRunning: true\<close> after that one status command; and the events of a run of
  \<^verbatim>\<open>discoverFoundryService\<close> whose first status query is such do not contain the
  launch command, whatever the cache holds.\<close>

theorem already_running_no_launch:
  assumes "is_up (queryServiceFromCLI (runtime e) (status_output e (status_calls w)))"
  shows "startFoundryService e w =
      (\<lparr> started = False, wasAlreadyRunning = True,
         message = ''Service already running on ''
           @ js_to_string (endpoint (queryServiceFromCLI (runtime e) (status_output e (status_calls w)))) \<rparr>,
       w\<lparr>status_calls := Suc (status_calls w), trace := trace w @ [Exec status_command]\<rparr>)
    \<and> (\<exists>evs. trace (snd (discoverFoundryService e w)) = trace w @ evs \<and> Exec start_command \<notin> set evs)"
proof -
  have s: "startFoundryService e w0 =
      (\<lparr> started = False, wasAlreadyRunning = True,
         message = ''Service already running on ''
           @ js_to_string (endpoint (queryServiceFromCLI (runtime e) (status_output e (status_calls w)))) \<rparr>,
       w0\<lparr>status_calls := Suc (status_calls w0), trace := trace w0 @ [Exec status_command]\<rparr>)"
    if "status_calls w0 = status_calls w" for w0
    using start_up [of e w0] assms that by simp
  have "\<exists>evs. trace (snd (discoverFoundryService e w)) = trace w @ evs \<and> Exec start_command \<notin> set evs"
  proof (cases "check_cache e w")
    case (Inl a)
    then obtain r w1 where "check_cache e w = Inl (r, w1)"
      by (cases a) simp
    then have "trace (snd (discoverFoundryService e w)) = trace w @ [Verify (endpoint r)]"
      using check_cache_Inl(2) [of e w r w1] by (simp add: discoverFoundryService_def)
    then show ?thesis by simp
  next
    case (Inr w0)
    then obtain evs0 where t0: "trace w0 = trace w @ evs0"
        and v0: "list_all (\<lambda>ev. \<exists>u. ev = Verify u) evs0" and sc: "status_calls w0 = status_calls w"
      using check_cache_Inr [of e w w0] by blast
    let ?r = "queryServiceFromCLI (runtime e) (status_output e (status_calls (snd (startFoundryService e w0))))"
    let ?ok = "verifyEndpoint (runtime e) (network e (probe_calls w0)) (endpoint ?r) None"
    let ?tail = "(if truthy (endpoint ?r)
              then Verify (endpoint ?r)
                   # (if ?ok then snd (cacheEndpoint (runtime e) (files w0) (write_time e) (endpoint ?r)) else [])
              else [])"
    have "trace (snd (discoverFoundryService e w))
        = trace w @ (evs0 @ [Exec status_command, Delay 1000, Exec status_command] @ ?tail)"
      using Inr launch_and_query_unfold(2) [of e w0] s [OF sc] t0
      by (simp add: discoverFoundryService_def)
    moreover have "Exec start_command \<notin> set evs0"
      using v0 by (auto simp: list_all_iff)
    moreover have "Exec start_command \<notin> set ?tail"
      using cache_events_are_writes [of "runtime e" "files w0" "write_time e" "endpoint ?r"]
      by (auto simp: list_all_iff)
    ultimately show ?thesis
      using commands_differ by auto
  qed
  then show ?thesis
    using s [of w] by simp
qed

theorem already_running_no_launch_witness:
  "fst (startFoundryService running_env fresh_world)
     = \<lparr> started = False, wasAlreadyRunning = True,
         message = ''Service already running on http://127.0.0.1:55329'' \<rparr>
   \<and> trace (snd (startFoundryService running_env fresh_world)) = [Exec status_command]
   \<and> Exec start_command \<notin> set (trace (snd (discoverFoundryService running_env fresh_world)))"
proof -
  have up: "is_up (queryServiceFromCLI (runtime running_env)
      (status_output running_env (status_calls fresh_world)))"
    by (simp add: running_env_def is_up_def running_example_up)
  show ?thesis
    using already_running_no_launch [OF up]
    by (auto simp: running_env_def fresh_world_def running_example_up)
qed

text \<open>Claim C5. When the cache does not answer, the last status query yields a truthy
  endpoint and its verification fails, \<^verbatim>\<open>discoverFoundryService\<close> returns that endpoint
  and its port with \<^verbatim>\<open>isRunning = false\<close>, leaves the files as they were, and none of
  its events writes a file or makes a directory.\<close>

theorem failed_verification_result:
  fixes e w w0
  defines "r \<equiv> queryServiceFromCLI (runtime e)
                 (status_output e (status_calls (snd (startFoundryService e w0))))"
  assumes "check_cache e w = Inr w0"
    and "truthy (endpoint r)"
    and "\<not> verifyEndpoint (runtime e) (network e (probe_calls w0)) (endpoint r) None"
  shows "fst (discoverFoundryService e w) = \<lparr> endpoint = endpoint r, port = port r, isRunning = False \<rparr>
       \<and> files (snd (discoverFoundryService e w)) = files w
       \<and> (\<exists>evs. trace (snd (discoverFoundryService e w)) = trace w @ evs \<and> \<not> list_ex is_write evs)"
proof -
  have d: "discoverFoundryService e w = launch_and_query e w0"
    using assms(2) by (simp add: discoverFoundryService_def)
  obtain evs0 where t0: "trace w0 = trace w @ evs0"
      and v0: "list_all (\<lambda>ev. \<exists>u. ev = Verify u) evs0" and f0: "files w0 = files w"
    using check_cache_Inr [OF assms(2)] by blast
  obtain evs1 where t1: "trace (snd (startFoundryService e w0)) = trace w0 @ evs1"
      and v1: "set evs1 \<subseteq> {Exec status_command, Exec start_command, Delay 2000, Delay 1000}"
    using start_trace [of e w0] by blast
  have res: "fst (launch_and_query e w0) = \<lparr> endpoint = endpoint r, port = port r, isRunning = False \<rparr>"
    using launch_and_query_unfold(1) [of e w0] assms(3,4) by (simp add: r_def)
  have fl: "files (snd (launch_and_query e w0)) = files w"
    using launch_and_query_unfold(3) [of e w0] assms(3,4) f0 by (simp add: r_def)
  have tr: "trace (snd (launch_and_query e w0))
      = trace w @ (evs0 @ evs1 @ [Delay 1000, Exec status_command, Verify (endpoint r)])"
    using launch_and_query_unfold(2) [of e w0] assms(3,4) t0 t1 by (simp add: r_def)
  have "\<not> list_ex is_write evs0"
    using v0 by (auto simp: list_all_iff list_ex_iff)
  moreover have "\<not> list_ex is_write evs1"
    using v1 by (auto simp: list_ex_iff)
  ultimately have "\<not> list_ex is_write (evs0 @ evs1 @ [Delay 1000, Exec status_command, Verify (endpoint r)])"
    by simp
  then show ?thesis
    using res fl tr unfolding d by blast
qed

theorem failed_verification_result_witness:
  "fst (discoverFoundryService unreachable_env fresh_world)
     = \<lparr> endpoint = JString ''http://127.0.0.1:55329'', port = JNumber 55329, isRunning = False \<rparr>
   \<and> files (snd (discoverFoundryService unreachable_env fresh_world)) = fresh_files"
proof -
  have s: "status_calls (snd (startFoundryService unreachable_env fresh_world)) = 1"
    by (simp add: startFoundryService_def Let_def query_step_def is_up_def unreachable_env_def
        fresh_world_def text_example_up)
  have t: "truthy (endpoint (queryServiceFromCLI (runtime unreachable_env)
      (status_output unreachable_env (status_calls (snd (startFoundryService unreachable_env fresh_world))))))"
    unfolding s by (simp add: unreachable_env_def text_example_up)
  have v: "\<not> verifyEndpoint (runtime unreachable_env)
      (network unreachable_env (probe_calls fresh_world))
      (endpoint (queryServiceFromCLI (runtime unreachable_env)
         (status_output unreachable_env
            (status_calls (snd (startFoundryService unreachable_env fresh_world)))))) None"
    unfolding s
    by (simp add: unreachable_env_def text_example_up verifyEndpoint_def probe_options_def
        node_URL_origin_example)
  show ?thesis
    using failed_verification_result [OF fresh_check_cache t v] s
    by (simp add: unreachable_env_def text_example_up fresh_world_def)
qed

text \<open>Claim C8. If neither the status query before the launch nor any of the 60 queries
  of the polling loop reports a running service with a truthy endpoint,
  \<^verbatim>\<open>startFoundryService\<close> returns \<^verbatim>\<open>started: false\<close> and \<^verbatim>\<open>wasAlreadyRunning: false\<close>;
  when the launch command does not throw, it has then issued 61 status commands: one,
  the launch command and a delay of 2000 ms, then 60 times a status command and a
  delay of 1000 ms. \<^verbatim>\<open>discoverFoundryService\<close> goes on with a delay of 1000 ms and one
  more status command; when that one yields a truthy endpoint it verifies it once,
  and \<^verbatim>\<open>isRunning\<close> of its result is the outcome of the verification.\<close>

theorem poll_budget_exhausted:
  fixes e w w0
  defines "w2 \<equiv> snd (startFoundryService e w0)"
  defines "r \<equiv> queryServiceFromCLI (runtime e) (status_output e (status_calls w2))"
  assumes "\<forall>k \<le> maxRetries. \<not> is_up (queryServiceFromCLI (runtime e) (status_output e (status_calls w0 + k)))"
    and "check_cache e w = Inr w0"
  shows "\<not> started (fst (startFoundryService e w0)) \<and> \<not> wasAlreadyRunning (fst (startFoundryService e w0))
    \<and> (start_throws e = None \<longrightarrow>
          message (fst (startFoundryService e w0)) = ''Service start timeout - please check manually''
          \<and> status_calls w2 = status_calls w0 + 61
          \<and> trace w2 = trace w0 @ [Exec status_command, Exec start_command, Delay 2000]
                        @ concat (replicate 60 [Exec status_command, Delay 1000]))
    \<and> fst (discoverFoundryService e w) =
          (if truthy (endpoint r)
           then \<lparr> endpoint = endpoint r, port = port r,
                  isRunning = verifyEndpoint (runtime e) (network e (probe_calls w0)) (endpoint r) None \<rparr>
           else \<lparr> endpoint = JNull, port = port r, isRunning = False \<rparr>)
    \<and> (\<exists>evs. trace (snd (discoverFoundryService e w)) =
                 trace w2 @ [Delay 1000, Exec status_command]
                 @ (if truthy (endpoint r) then [Verify (endpoint r)] else []) @ evs
               \<and> list_all is_write evs)"
proof -
  have d: "discoverFoundryService e w = launch_and_query e w0"
    using assms(4) by (simp add: discoverFoundryService_def)
  have a: "\<not> started (fst (startFoundryService e w0)) \<and> \<not> wasAlreadyRunning (fst (startFoundryService e w0))"
    using start_not_started(1) [OF assms(3)] .
  have b: "start_throws e = None \<longrightarrow>
          message (fst (startFoundryService e w0)) = ''Service start timeout - please check manually''
          \<and> status_calls w2 = status_calls w0 + 61
          \<and> trace w2 = trace w0 @ [Exec status_command, Exec start_command, Delay 2000]
                        @ concat (replicate 60 [Exec status_command, Delay 1000])"
    using start_not_started(2) [OF assms(3)] by (simp add: w2_def maxRetries_def)
  have c: "fst (launch_and_query e w0) =
          (if truthy (endpoint r)
           then \<lparr> endpoint = endpoint r, port = port r,
                  isRunning = verifyEndpoint (runtime e) (network e (probe_calls w0)) (endpoint r) None \<rparr>
           else \<lparr> endpoint = JNull, port = port r, isRunning = False \<rparr>)"
    using launch_and_query_unfold(1) [of e w0] by (simp add: r_def w2_def)
  let ?ok = "verifyEndpoint (runtime e) (network e (probe_calls w0)) (endpoint r) None"
  let ?evs = "if truthy (endpoint r) \<and> ?ok
      then snd (cacheEndpoint (runtime e) (files w0) (write_time e) (endpoint r)) else []"
  have "trace (snd (launch_and_query e w0)) =
                 trace w2 @ [Delay 1000, Exec status_command]
                 @ (if truthy (endpoint r) then [Verify (endpoint r)] else []) @ ?evs"
    using launch_and_query_unfold(2) [of e w0] by (simp add: r_def w2_def)
  moreover have "list_all is_write ?evs"
    using cache_events_are_writes [of "runtime e" "files w0" "write_time e" "endpoint r"] by simp
  ultimately have "\<exists>evs. trace (snd (launch_and_query e w0)) =
                 trace w2 @ [Delay 1000, Exec status_command]
                 @ (if truthy (endpoint r) then [Verify (endpoint r)] else []) @ evs
               \<and> list_all is_write evs"
    by blast
  then show ?thesis
    using a b c unfolding d by blast
qed

theorem poll_budget_exhausted_witness:
  "\<not> started (fst (startFoundryService late_env fresh_world))
   \<and> \<not> wasAlreadyRunning (fst (startFoundryService late_env fresh_world))
   \<and> message (fst (startFoundryService late_env fresh_world)) = ''Service start timeout - please check manually''
   \<and> status_calls (snd (startFoundryService late_env fresh_world)) = 61
   \<and> length (trace (snd (startFoundryService late_env fresh_world))) = 123
   \<and> fst (discoverFoundryService late_env fresh_world)
       = \<lparr> endpoint = JString ''http://127.0.0.1:55329'', port = JNumber 55329, isRunning = True \<rparr>"
proof -
  have h: "\<forall>k \<le> maxRetries. \<not> is_up (queryServiceFromCLI (runtime late_env)
      (status_output late_env (status_calls fresh_world + k)))"
    by (simp add: late_env_def fresh_world_def maxRetries_def queryServiceFromCLI_def is_up_def)
  have n: "start_throws late_env = None"
    by (simp add: late_env_def)
  have v: "verifyEndpoint node (\<lambda>options. Response 404) (JString ''http://127.0.0.1:55329'') None"
    by (simp add: verifyEndpoint_def probe_options_def node_URL_origin_example)
  note t = poll_budget_exhausted [OF h fresh_check_cache]
  from t n have s0: "status_calls (snd (startFoundryService late_env fresh_world))
      = status_calls fresh_world + 61"
    by blast
  then have s: "status_calls (snd (startFoundryService late_env fresh_world)) = 61"
    by (simp add: fresh_world_def)
  from t n have "trace (snd (startFoundryService late_env fresh_world))
      = trace fresh_world @ [Exec status_command, Exec start_command, Delay 2000]
        @ concat (replicate 60 [Exec status_command, Delay 1000])"
    by blast
  then have l: "length (trace (snd (startFoundryService late_env fresh_world))) = 123"
    by (simp add: fresh_world_def length_concat sum_list_replicate)
  have r: "queryServiceFromCLI (runtime late_env)
      (status_output late_env (status_calls (snd (startFoundryService late_env fresh_world))))
      = \<lparr> endpoint = JString ''http://127.0.0.1:55329'', port = JNumber 55329, isRunning = True,
         raw = ''Service is running on http://127.0.0.1:55329'' \<rparr>"
    unfolding s by (simp add: late_env_def text_example_up)
  from t have "fst (discoverFoundryService late_env fresh_world) =
          (if truthy (endpoint (queryServiceFromCLI (runtime late_env)
                (status_output late_env (status_calls (snd (startFoundryService late_env fresh_world))))))
           then \<lparr> endpoint = endpoint (queryServiceFromCLI (runtime late_env)
                (status_output late_env (status_calls (snd (startFoundryService late_env fresh_world))))),
                  port = port (queryServiceFromCLI (runtime late_env)
                (status_output late_env (status_calls (snd (startFoundryService late_env fresh_world))))),
                  isRunning = verifyEndpoint (runtime late_env) (network late_env (probe_calls fresh_world))
                     (endpoint (queryServiceFromCLI (runtime late_env)
                (status_output late_env (status_calls (snd (startFoundryService late_env fresh_world))))))
                     None \<rparr>
           else \<lparr> endpoint = JNull, port = port (queryServiceFromCLI (runtime late_env)
                (status_output late_env (status_calls (snd (startFoundryService late_env fresh_world))))),
                  isRunning = False \<rparr>)"
    by blast
  then have d: "fst (discoverFoundryService late_env fresh_world)
       = \<lparr> endpoint = JString ''http://127.0.0.1:55329'', port = JNumber 55329, isRunning = True \<rparr>"
    using v unfolding r by (simp add: late_env_def)
  from t n have m: "message (fst (startFoundryService late_env fresh_world))
      = ''Service start timeout - please check manually''"
    by blast
  from t have a: "\<not> started (fst (startFoundryService late_env fresh_world))
      \<and> \<not> wasAlreadyRunning (fst (startFoundryService late_env fresh_world))"
    by blast
  show ?thesis
    using a m s l d by simp
qed

end
